theory Spec2Isabelle
  imports Main "HOL-Library.Char_ord" "HOL-Library.List_Lexorder" "HOL-Library.Multiset"
begin

section \<open>The printing module of the ahkab simulator (src/ahkab/printing.py)\<close>

text \<open>
  The module writes text to the two process-wide streams and, inside
  \<^verbatim>\<open>printoptions\<close>, changes numpy's global print options. The embedding threads
  a record of exactly that state through every function, and makes a raised exception
  a value: a function of the module is a state transformer that returns either the
  exception or the returned value, next to the state it leaves behind.
\<close>

subsection \<open>Values, exceptions and the state\<close>

text \<open>
  The Python values that reach the module. \<open>PyObj s\<close> stands for an object of any
  other class (a float, a sympy symbol or expression): the module only ever asks such an
  object for its text, so the object is carried as the text \<^verbatim>\<open>str()\<close> returns for it.
  Strings are lists of characters; their encoding is not modelled.
\<close>

datatype pyval = PyNone | PyBool bool | PyInt int | PyStr string | PyObj string

datatype pyerror = KeyError | TypeError | OverflowError

record io =
  stdout :: string
  stderr :: string
  np_options :: "string \<Rightarrow> pyval"

type_synonym 'a py = "io \<Rightarrow> (pyerror + 'a) \<times> io"

definition py_return :: "'a \<Rightarrow> 'a py" where
  "py_return v io = (Inr v, io)"

definition py_raise :: "pyerror \<Rightarrow> 'a py" where
  "py_raise e io = (Inl e, io)"

definition py_bind :: "'a py \<Rightarrow> ('a \<Rightarrow> 'b py) \<Rightarrow> 'b py" where
  "py_bind m f io = (case m io of (Inl e, io') \<Rightarrow> (Inl e, io') | (Inr v, io') \<Rightarrow> f v io')"

definition py_then :: "'a py \<Rightarrow> 'b py \<Rightarrow> 'b py" where
  "py_then m k = py_bind m (\<lambda>_. k)"

subsection \<open>Text of a value\<close>

definition newline :: string where
  "newline = [CHR 0x0A]"

definition tab :: string where
  "tab = [CHR 0x09]"

definition digit :: "nat \<Rightarrow> char" where
  "digit d = ''0123456789'' ! d"

fun str_nat :: "nat \<Rightarrow> string" where
  "str_nat n = (if n < 10 then [digit n] else str_nat (n div 10) @ [digit (n mod 10)])"

definition str_int :: "int \<Rightarrow> string" where
  "str_int i = (if i < 0 then ''-'' @ str_nat (nat (- i)) else str_nat (nat i))"

text \<open>\<^verbatim>\<open>str(v)\<close>.\<close>

fun str :: "pyval \<Rightarrow> string" where
  "str PyNone = ''None''"
| "str (PyBool b) = (if b then ''True'' else ''False'')"
| "str (PyInt i) = str_int i"
| "str (PyStr s) = s"
| "str (PyObj s) = s"

subsection \<open>Writing to the streams\<close>

text \<open>\<^verbatim>\<open>sys.stdout.write(s)\<close> and \<^verbatim>\<open>sys.stderr.write(s)\<close>.\<close>

definition stdout_write :: "string \<Rightarrow> unit py" where
  "stdout_write s io = (Inr (), io\<lparr>stdout := stdout io @ s\<rparr>)"

definition stderr_write :: "string \<Rightarrow> unit py" where
  "stderr_write s io = (Inr (), io\<lparr>stderr := stderr io @ s\<rparr>)"

text \<open>\<^verbatim>\<open>print(s, end=e)\<close> and \<^verbatim>\<open>print(s)\<close>, whose end is the newline.\<close>

definition print_end :: "string \<Rightarrow> string \<Rightarrow> unit py" where
  "print_end s e = stdout_write (s @ e)"

definition print :: "string \<Rightarrow> unit py" where
  "print s = print_end s newline"

subsection \<open>Errors and warnings\<close>

text \<open>
  The arguments have the types the docstrings give: \<open>description\<close> and \<open>line\<close> are
  strings, \<open>nline\<close> is an integer, \<open>print_to_stdout\<close> is a boolean.
\<close>

definition print_general_error :: "string \<Rightarrow> bool \<Rightarrow> pyval py" where
  "print_general_error description print_to_stdout =
     (let the_error_message = ''E: '' @ description in
      py_then
        (if print_to_stdout then print the_error_message
         else stderr_write (the_error_message @ newline))
        (py_return PyNone))"

definition print_warning :: "string \<Rightarrow> bool \<Rightarrow> pyval py" where
  "print_warning description print_to_stdout =
     (let the_warning_message = ''W: '' @ description in
      py_then
        (if print_to_stdout then print the_warning_message
         else stderr_write (the_warning_message @ newline))
        (py_return PyNone))"

definition print_parse_error :: "int \<Rightarrow> string \<Rightarrow> bool \<Rightarrow> pyval py" where
  "print_parse_error nline line print_to_stdout =
     py_then
       (print_general_error (''Parse error on line '' @ str (PyInt nline) @ '':'') print_to_stdout)
       (py_then
          (if print_to_stdout then print line
           else stderr_write (line @ newline))
          (py_return PyNone))"

subsection \<open>Dictionaries and loops\<close>

text \<open>
  A dictionary is the list of its items, in the order in which Python iterates over it.
  \<^verbatim>\<open>d[k]\<close> raises KeyError when the key is missing.
\<close>

definition getitem :: "('k \<times> pyval) list \<Rightarrow> 'k \<Rightarrow> pyval py" where
  "getitem d k = (case map_of d k of None \<Rightarrow> py_raise KeyError | Some v \<Rightarrow> py_return v)"

text \<open>\<^verbatim>\<open>for x in xs: body(x)\<close>.\<close>

fun for_each :: "('a \<Rightarrow> unit py) \<Rightarrow> 'a list \<Rightarrow> unit py" where
  "for_each body [] = py_return ()"
| "for_each body (x # xs) = py_then (body x) (for_each body xs)"

text \<open>A pure computation that may raise, run as a statement.\<close>

definition py_lift :: "pyerror + 'a \<Rightarrow> 'a py" where
  "py_lift r = (case r of Inl e \<Rightarrow> py_raise e | Inr v \<Rightarrow> py_return v)"

text \<open>\<^verbatim>\<open>s + v\<close> for a string \<open>s\<close>: only a string can be appended to a string.\<close>

definition add_str :: "string \<Rightarrow> pyval \<Rightarrow> string py" where
  "add_str s v = (case v of PyStr t \<Rightarrow> py_return (s @ t) | _ \<Rightarrow> py_raise TypeError)"

subsection \<open>print_analysis\<close>

text \<open>
  The conversion \<^verbatim>\<open>%g\<close> formats a floating-point number. Floating point is outside
  this embedding, so the conversion is the parameter \<open>fmt_g\<close>: the text Python
  produces for the value, or the exception it raises (TypeError for a value that is
  not a number, OverflowError for an integer too large for a float).

  Every \<^verbatim>\<open>elif\<close> of the source reads \<^verbatim>\<open>an["type"]\<close> again; the reads
  return the same value and change nothing, so the model reads it once.
\<close>

definition print_analysis :: "(pyval \<Rightarrow> pyerror + string) \<Rightarrow> (string \<times> pyval) list \<Rightarrow> pyval py" where
  "print_analysis fmt_g an =
     py_bind (getitem an ''type'') (\<lambda>type.
       if type = PyStr ''op'' then
         py_then (print_end ''.op'' [])
        (py_then (for_each (\<lambda>x.
            if x = ''type'' \<or> x = ''outfile'' \<or> x = ''verbose'' then py_return ()
            else py_bind (getitem an x) (\<lambda>v. print_end ('' '' @ x @ ''='' @ str v) []))
            (map fst an))
        (py_then (print [])
          (py_return PyNone)))
       else if type = PyStr ''dc'' then
         py_bind (getitem an ''source'') (\<lambda>source.
         py_bind (getitem an ''start'') (\<lambda>start.
         py_bind (py_lift (fmt_g start)) (\<lambda>start_g.
         py_bind (getitem an ''stop'') (\<lambda>stop.
         py_bind (py_lift (fmt_g stop)) (\<lambda>stop_g.
         py_bind (getitem an ''step'') (\<lambda>step.
         py_bind (py_lift (fmt_g step)) (\<lambda>step_g.
         py_bind (getitem an ''sweep_type'') (\<lambda>sweep_type.
         py_then (print (''.dc '' @ str source @ '' start='' @ start_g @ '' stop='' @ stop_g
                          @ '' step='' @ step_g @ '' type='' @ str sweep_type))
           (py_return PyNone)))))))))
       else if type = PyStr ''tran'' then
         py_bind (getitem an ''tstep'') (\<lambda>tstep.
         py_bind (getitem an ''tstop'') (\<lambda>tstop.
         py_bind (getitem an ''tstart'') (\<lambda>tstart.
         py_then (stdout_write (''.tran tstep='' @ str tstep @ '' tstop='' @ str tstop
                                 @ '' tstart='' @ str tstart))
        (py_bind (getitem an ''method'') (\<lambda>method.
         py_then
           (if method \<noteq> PyNone then
              py_bind (getitem an ''method'') (\<lambda>method.
              py_bind (add_str '' method='' method) print)
            else print [])
           (py_return PyNone))))))
       else if type = PyStr ''shooting'' then
         py_bind (getitem an ''period'') (\<lambda>period.
         py_bind (getitem an ''method'') (\<lambda>method.
         py_then (stdout_write (''.shooting period='' @ str period @ '' method='' @ str method))
        (py_bind (getitem an ''points'') (\<lambda>points.
         py_then
           (if points \<noteq> PyNone then
              py_bind (getitem an ''points'') (\<lambda>points. stdout_write ('' points='' @ str points))
            else py_return ())
        (py_bind (getitem an ''step'') (\<lambda>step.
         py_then
           (if step \<noteq> PyNone then
              py_bind (getitem an ''step'') (\<lambda>step. stdout_write ('' step='' @ str step))
            else py_return ())
        (py_bind (getitem an ''autonomous'') (\<lambda>autonomous.
         py_then (print ('' autonomous='' @ '' '' @ str autonomous))
           (py_return PyNone)))))))))
       else py_return PyNone)"

subsection \<open>numpy's print options and the context manager\<close>

text \<open>
  numpy is a library outside the repository. Its print options are a process-wide
  dictionary with a fixed set of keys; the model follows numpy's documentation of the
  two calls: \<^verbatim>\<open>np.get_printoptions()\<close> returns the current options as a dictionary,
  and \<^verbatim>\<open>np.set_printoptions(**kwargs)\<close> assigns the options named in the call and
  raises TypeError for a name that is no option. (numpy leaves an option alone when the
  argument given for it is None; the model assigns what it is given, which is the same
  whenever no argument is None.) Positional arguments are bound by Python to these
  names before the call, so the model takes keyword arguments only.
\<close>

definition np_option_names :: "string list" where
  "np_option_names = [''precision'', ''threshold'', ''edgeitems'', ''linewidth'', ''suppress'',
     ''nanstr'', ''infstr'', ''formatter'', ''sign'', ''floatmode'', ''legacy'']"

definition get_printoptions :: "io \<Rightarrow> (string \<times> pyval) list" where
  "get_printoptions io = map (\<lambda>k. (k, np_options io k)) np_option_names"

definition set_printoptions :: "(string \<times> pyval) list \<Rightarrow> unit py" where
  "set_printoptions kwargs io =
     (if list_all (\<lambda>k. k \<in> set np_option_names) (map fst kwargs)
      then (Inr (), io\<lparr>np_options := fold (\<lambda>kv f. f(fst kv := snd kv)) kwargs (np_options io)\<rparr>)
      else (Inl TypeError, io))"

text \<open>
  \<open>printoptions kwargs body\<close> is the statement
  \<^verbatim>\<open>with printoptions(**kwargs): body\<close>. The function is a generator under
  \<^verbatim>\<open>contextlib.contextmanager\<close>: entering the block runs it up to
  \<^verbatim>\<open>yield\<close>, leaving the block normally runs the rest. When the body raises, the
  exception is raised again inside the generator at the \<^verbatim>\<open>yield\<close>; the generator
  has no \<^verbatim>\<open>try\<close> around it, so the statement after the \<^verbatim>\<open>yield\<close> does not
  run and the exception leaves the block.
\<close>

definition printoptions :: "(string \<times> pyval) list \<Rightarrow> 'a py \<Rightarrow> 'a py" where
  "printoptions kwargs body io =
     (let original = get_printoptions io in
      py_bind (set_printoptions kwargs) (\<lambda>_.
      py_bind body (\<lambda>v.
      py_then (set_printoptions original)
        (py_return v))) io)"

subsection \<open>Informational lines and the result check\<close>

text \<open>
  The module \<^verbatim>\<open>options\<close> of the simulator is not among the sources; the constants
  the printing module reads from it are a parameter.
\<close>

record options =
  print_precision :: pyval
  print_suppress :: pyval
  ver :: pyval
  vea :: pyval
  ier :: pyval
  iea :: pyval

definition stdout_flush :: "unit py" where
  "stdout_flush = py_return ()"

definition print_info_line :: "options \<Rightarrow> pyval \<times> int \<Rightarrow> int \<Rightarrow> bool \<Rightarrow> pyval py" where
  "print_info_line opts msg_relevance_tuple verbose print_nl =
     (case msg_relevance_tuple of (msg, relevance) \<Rightarrow>
        if verbose \<ge> relevance then
          py_then
            (printoptions [(''precision'', print_precision opts), (''suppress'', print_suppress opts)]
               (if print_nl then print (str msg)
                else py_then (print_end (str msg) '' '') stdout_flush))
            (py_return PyNone)
        else py_return PyNone)"

definition print_result_check :: "options \<Rightarrow> pyval list \<Rightarrow> int \<Rightarrow> pyval py" where
  "print_result_check opts badvars verbose =
     py_then
       (if length badvars \<noteq> 0 then
          py_then (print ''Warning: solution is heavvily dependent on gmin.'')
         (py_then (print ''Affected variables:'')
           (for_each (\<lambda>bv. print (str bv)) badvars))
        else if verbose \<noteq> 0 then
          py_then (print ''Difference check is within margins.'')
            (print (''(Voltage: er='' @ str (ver opts) @ '', ea='' @ str (vea opts)
                     @ '', Current: er='' @ str (ier opts) @ '', ea='' @ str (iea opts) @ '')''))
        else py_return ())
       (py_return PyNone)"

subsection \<open>Symbolic results\<close>

text \<open>
  \<^verbatim>\<open>cmp(a, b)\<close> on two strings, and \<^verbatim>\<open>xs.sort(f)\<close> of Python 2 with a
  comparison function: a stable sort, here by insertion.
\<close>

definition cmp :: "string \<Rightarrow> string \<Rightarrow> int" where
  "cmp a b = (if a < b then - 1 else if a = b then 0 else 1)"

fun insort_cmp :: "('a \<Rightarrow> 'a \<Rightarrow> int) \<Rightarrow> 'a \<Rightarrow> 'a list \<Rightarrow> 'a list" where
  "insort_cmp f x [] = [x]"
| "insort_cmp f x (y # ys) = (if f x y \<le> 0 then x # y # ys else y # insort_cmp f x ys)"

fun list_sort :: "('a \<Rightarrow> 'a \<Rightarrow> int) \<Rightarrow> 'a list \<Rightarrow> 'a list" where
  "list_sort f [] = []"
| "list_sort f (x # xs) = insort_cmp f x (list_sort f xs)"

text \<open>
  The module runs under Python 2 and Python 3: it asks \<^verbatim>\<open>py3compat.PY2\<close> which one
  it is on (the module \<^verbatim>\<open>py3compat\<close> is not among the sources, so the flag is the
  parameter \<open>PY2\<close>). Under Python 2 \<^verbatim>\<open>keys.sort(f)\<close> sorts with the comparison
  function \<open>f\<close>. Under Python 3 \<^verbatim>\<open>list.sort\<close> accepts keyword arguments only and
  the call raises TypeError before anything is compared or printed.
\<close>

definition print_symbolic_results :: "bool \<Rightarrow> (pyval \<times> pyval) list \<Rightarrow> pyval py" where
  "print_symbolic_results PY2 x =
     (let keys = map fst x in
      py_bind (if PY2 then py_return (list_sort (\<lambda>x y. cmp (str x) (str y)) keys)
               else py_raise TypeError) (\<lambda>keys.
      py_then (for_each (\<lambda>key.
          py_bind (getitem x key) (\<lambda>v. print (str key @ tab @ '' = '' @ str v))) keys)
        (py_return PyNone)))"

definition print_symbolic_equations :: "pyval list \<Rightarrow> pyval py" where
  "print_symbolic_equations eq_list =
     py_then (print ''+--'')
    (py_then (for_each (\<lambda>eq. print (''| '' @ str eq)) eq_list)
    (py_then (print ''+--'')
      (py_return PyNone)))"

subsection \<open>Importing the module\<close>

text \<open>
  The statements at the end of the module, run once when it is imported;
  \<open>getenv\<close> is the process environment read by \<^verbatim>\<open>os.getenv\<close>. The statements
  at the top of the module (the imports and, under Python 2, the wrapping of
  \<^verbatim>\<open>sys.stdout\<close> in a UTF-8 writer) write nothing and are left out, as are
  \<^verbatim>\<open>open_utf8\<close>, \<^verbatim>\<open>table\<close>, \<^verbatim>\<open>table_print\<close> and
  \<^verbatim>\<open>print_symbolic_transfer_functions\<close>, which no property below is about.
\<close>

definition locale_warning_1 :: string where
  \<open>locale_warning_1 = ''Locale appears not set! please export LANG="en_US.UTF-8" or equivalent, ''\<close>

definition locale_warning_2 :: string where
  "locale_warning_2 = ''or ahkab's unicode support is broken.''"

definition import_module :: "(string \<rightharpoonup> string) \<Rightarrow> unit py" where
  "import_module getenv =
     (let locale = getenv ''LANG'' in
      if (case locale of None \<Rightarrow> True | Some l \<Rightarrow> l = []) then
        py_then (print_warning locale_warning_1 False)
       (py_then (print_warning locale_warning_2 False)
         (py_return ()))
      else py_return ())"

subsection \<open>What print_analysis reads\<close>

text \<open>
  \<open>analysis_ok\<close> collects what the branches of \<open>print_analysis\<close> read from the
  descriptor: the key \<^verbatim>\<open>type\<close> always; for \<^verbatim>\<open>dc\<close> the keys \<^verbatim>\<open>source\<close>,
  \<^verbatim>\<open>start\<close>, \<^verbatim>\<open>stop\<close>, \<^verbatim>\<open>step\<close> (each with a value that \<^verbatim>\<open>%g\<close> formats)
  and \<^verbatim>\<open>sweep_type\<close>; for \<^verbatim>\<open>tran\<close> the keys \<^verbatim>\<open>tstep\<close>, \<^verbatim>\<open>tstop\<close>,
  \<^verbatim>\<open>tstart\<close> and a \<^verbatim>\<open>method\<close> that is None or a string; for \<^verbatim>\<open>shooting\<close> the
  keys \<^verbatim>\<open>period\<close>, \<^verbatim>\<open>method\<close>, \<^verbatim>\<open>points\<close>, \<^verbatim>\<open>step\<close> and
  \<^verbatim>\<open>autonomous\<close>. The branch \<^verbatim>\<open>op\<close> and a descriptor of any other type need
  nothing more.
\<close>

definition has_key :: "(string \<times> pyval) list \<Rightarrow> string \<Rightarrow> bool" where
  "has_key an k = (map_of an k \<noteq> None)"

definition formats :: "(pyval \<Rightarrow> pyerror + string) \<Rightarrow> (string \<times> pyval) list \<Rightarrow> string \<Rightarrow> bool" where
  "formats fmt_g an k =
     (case map_of an k of None \<Rightarrow> False
      | Some v \<Rightarrow> (case fmt_g v of Inl e \<Rightarrow> False | Inr s \<Rightarrow> True))"

definition none_or_str :: "(string \<times> pyval) list \<Rightarrow> string \<Rightarrow> bool" where
  "none_or_str an k =
     (case map_of an k of Some PyNone \<Rightarrow> True | Some (PyStr s) \<Rightarrow> True | _ \<Rightarrow> False)"

definition analysis_ok :: "(pyval \<Rightarrow> pyerror + string) \<Rightarrow> (string \<times> pyval) list \<Rightarrow> bool" where
  "analysis_ok fmt_g an =
     (case map_of an ''type'' of
        None \<Rightarrow> False
      | Some type \<Rightarrow>
          if type = PyStr ''op'' then True
          else if type = PyStr ''dc'' then
            has_key an ''source'' \<and> list_all (formats fmt_g an) [''start'', ''stop'', ''step'']
            \<and> has_key an ''sweep_type''
          else if type = PyStr ''tran'' then
            list_all (has_key an) [''tstep'', ''tstop'', ''tstart''] \<and> none_or_str an ''method''
          else if type = PyStr ''shooting'' then
            list_all (has_key an) [''period'', ''method'', ''points'', ''step'', ''autonomous'']
          else True)"

section \<open>Properties\<close>

lemma print_general_error_run:
  "print_general_error d flag io =
     (Inr PyNone,
      if flag then io\<lparr>stdout := stdout io @ ''E: '' @ d @ newline\<rparr>
      else io\<lparr>stderr := stderr io @ ''E: '' @ d @ newline\<rparr>)"
  by (simp add: print_general_error_def py_then_def py_bind_def py_return_def
      print_def print_end_def stdout_write_def stderr_write_def)

lemma print_warning_run:
  "print_warning d flag io =
     (Inr PyNone,
      if flag then io\<lparr>stdout := stdout io @ ''W: '' @ d @ newline\<rparr>
      else io\<lparr>stderr := stderr io @ ''W: '' @ d @ newline\<rparr>)"
  by (simp add: print_warning_def py_then_def py_bind_def py_return_def
      print_def print_end_def stdout_write_def stderr_write_def)

lemma print_parse_error_run:
  "print_parse_error n l flag io =
     (Inr PyNone,
      if flag
      then io\<lparr>stdout := stdout io @ ''E: Parse error on line '' @ str (PyInt n) @ '':'' @ newline
                                    @ l @ newline\<rparr>
      else io\<lparr>stderr := stderr io @ ''E: Parse error on line '' @ str (PyInt n) @ '':'' @ newline
                                    @ l @ newline\<rparr>)"
  by (simp add: print_parse_error_def print_general_error_run py_then_def py_bind_def
      py_return_def print_def print_end_def stdout_write_def stderr_write_def)

text \<open>
  C3. Whatever the description and whichever stream is selected, the text
  \<open>print_general_error\<close> appends to that stream is \<open>E: \<close> followed by the description
  (and the newline that ends the line), and the text \<open>print_warning\<close> appends is
  \<open>W: \<close> followed by the description.
\<close>

theorem error_and_warning_prefix:
  "stdout (snd (print_general_error description True io))
     = stdout io @ (''E: '' @ description) @ newline
   \<and> stderr (snd (print_general_error description False io))
     = stderr io @ (''E: '' @ description) @ newline
   \<and> stdout (snd (print_warning description True io))
     = stdout io @ (''W: '' @ description) @ newline
   \<and> stderr (snd (print_warning description False io))
     = stderr io @ (''W: '' @ description) @ newline"
  by (simp add: print_general_error_run print_warning_run)

text \<open>
  C4. With \<open>print_to_stdout\<close> false the three functions append their message to
  standard error and leave standard output as it was; with \<open>print_to_stdout\<close> true
  they append it to standard output and leave standard error as it was.
\<close>

theorem message_routing:
  "stdout (snd (print_general_error d False io)) = stdout io
   \<and> stderr (snd (print_general_error d False io)) = stderr io @ ''E: '' @ d @ newline
   \<and> stderr (snd (print_general_error d True io)) = stderr io
   \<and> stdout (snd (print_general_error d True io)) = stdout io @ ''E: '' @ d @ newline
   \<and> stdout (snd (print_warning d False io)) = stdout io
   \<and> stderr (snd (print_warning d False io)) = stderr io @ ''W: '' @ d @ newline
   \<and> stderr (snd (print_warning d True io)) = stderr io
   \<and> stdout (snd (print_warning d True io)) = stdout io @ ''W: '' @ d @ newline
   \<and> stdout (snd (print_parse_error nline line False io)) = stdout io
   \<and> stderr (snd (print_parse_error nline line False io))
       = stderr io @ ''E: Parse error on line '' @ str (PyInt nline) @ '':'' @ newline @ line @ newline
   \<and> stderr (snd (print_parse_error nline line True io)) = stderr io
   \<and> stdout (snd (print_parse_error nline line True io))
       = stdout io @ ''E: Parse error on line '' @ str (PyInt nline) @ '':'' @ newline @ line @ newline"
  by (simp add: print_general_error_run print_warning_run print_parse_error_run)

text \<open>
  C6. The three functions return \<open>None\<close>, for every argument and in every state.
\<close>

theorem error_printers_return_None:
  "fst (print_general_error description print_to_stdout io) = Inr PyNone
   \<and> fst (print_warning description print_to_stdout io) = Inr PyNone
   \<and> fst (print_parse_error nline line print_to_stdout io) = Inr PyNone"
  by (simp add: print_general_error_run print_warning_run print_parse_error_run)

text \<open>
  C9. \<open>print_parse_error\<close> appends exactly two lines to the selected stream and
  nothing to the other: the line \<open>E: Parse error on line \<close>, the number, a colon; then the
  text of the offending line. Each of the two is ended by a newline. The selected
  stream is standard error, or standard output when \<open>print_to_stdout\<close> is true.
\<close>

theorem print_parse_error_two_lines:
  "snd (print_parse_error nline line False io)
     = io\<lparr>stderr := stderr io @ (''E: Parse error on line '' @ str (PyInt nline) @ '':'') @ newline
                                @ line @ newline\<rparr>
   \<and> snd (print_parse_error nline line True io)
     = io\<lparr>stdout := stdout io @ (''E: Parse error on line '' @ str (PyInt nline) @ '':'') @ newline
                                @ line @ newline\<rparr>"
  by (simp add: print_parse_error_run)

lemma print_run: "print s io = (Inr (), io\<lparr>stdout := stdout io @ s @ newline\<rparr>)"
  by (simp add: print_def print_end_def stdout_write_def)

lemma for_each_print:
  "for_each (\<lambda>v. print (f v)) xs io
     = (Inr (), io\<lparr>stdout := stdout io @ concat (map (\<lambda>v. f v @ newline) xs)\<rparr>)"
  by (induction xs arbitrary: io)
     (simp_all add: py_return_def py_then_def py_bind_def print_def print_end_def stdout_write_def)

lemma fold_assign_all:
  "fold (\<lambda>kv f. f(fst kv := snd kv)) (map (\<lambda>k. (k, g k)) ns) h
     = (\<lambda>k. if k \<in> set ns then g k else h k)"
  by (induction ns arbitrary: h) (auto simp: fun_eq_iff)

lemma set_printoptions_restore:
  "set_printoptions (get_printoptions io0) io
     = (Inr (), io\<lparr>np_options :=
          (\<lambda>k. if k \<in> set np_option_names then np_options io0 k else np_options io k)\<rparr>)"
proof -
  have "list_all (\<lambda>k. k \<in> set np_option_names) (map fst (get_printoptions io0))"
    by (simp add: get_printoptions_def list_all_iff o_def)
  then show ?thesis
    by (simp add: set_printoptions_def) (simp add: get_printoptions_def fold_assign_all)
qed

lemma set_printoptions_known:
  "list_all (\<lambda>k. k \<in> set np_option_names) (map fst kwargs) \<Longrightarrow>
   set_printoptions kwargs io
     = (Inr (), io\<lparr>np_options := fold (\<lambda>kv f. f(fst kv := snd kv)) kwargs (np_options io)\<rparr>)"
  by (simp add: set_printoptions_def)

lemma printoptions_returns:
  assumes known: "list_all (\<lambda>k. k \<in> set np_option_names) (map fst kwargs)"
    and body: "body (io\<lparr>np_options := fold (\<lambda>kv f. f(fst kv := snd kv)) kwargs (np_options io)\<rparr>)
                 = (Inr v, io')"
  shows "printoptions kwargs body io
     = (Inr v, io'\<lparr>np_options :=
          (\<lambda>k. if k \<in> set np_option_names then np_options io k else np_options io' k)\<rparr>)"
  using body
  by (simp add: printoptions_def Let_def py_bind_def py_then_def py_return_def
      set_printoptions_known [OF known] set_printoptions_restore)


lemma print_info_line_run:
  "print_info_line opts (msg, relevance) verbose print_nl io =
     (Inr PyNone,
      if verbose \<ge> relevance
      then io\<lparr>stdout := stdout io @ str msg @ (if print_nl then newline else '' '')\<rparr>
      else io)"
proof (cases "verbose \<ge> relevance")
  case False
  then show ?thesis by (simp add: print_info_line_def py_return_def)
next
  case True
  let ?kwargs = "[(''precision'', print_precision opts), (''suppress'', print_suppress opts)]"
  let ?body = "if print_nl then print (str msg)
               else py_then (print_end (str msg) '' '') stdout_flush"
  let ?io1 = "io\<lparr>np_options := fold (\<lambda>kv f. f(fst kv := snd kv)) ?kwargs (np_options io)\<rparr>"
  let ?io2 = "?io1\<lparr>stdout := stdout io @ str msg @ (if print_nl then newline else '' '')\<rparr>"
  have known: "list_all (\<lambda>k. k \<in> set np_option_names) (map fst ?kwargs)"
    by (simp add: np_option_names_def)
  have body: "?body ?io1 = (Inr (), ?io2)"
    by (simp add: print_def print_end_def stdout_write_def stdout_flush_def
        py_then_def py_bind_def py_return_def)
  have restored: "(\<lambda>k. if k \<in> set np_option_names then np_options io k else np_options ?io2 k)
                    = np_options io"
    by (auto simp: fun_eq_iff np_option_names_def)
  have "printoptions ?kwargs ?body io
          = (Inr (), ?io2\<lparr>np_options :=
               (\<lambda>k. if k \<in> set np_option_names then np_options io k else np_options ?io2 k)\<rparr>)"
    using known body by (rule printoptions_returns)
  then have "printoptions ?kwargs ?body io
          = (Inr (), io\<lparr>stdout := stdout io @ str msg @ (if print_nl then newline else '' '')\<rparr>)"
    unfolding restored by simp
  with True show ?thesis
    by (simp add: print_info_line_def py_then_def py_bind_def py_return_def)
qed

text \<open>
  C5. \<open>print_info_line\<close> appends the message (and the newline, or the blank when
  \<open>print_nl\<close> is false) to standard output when \<open>verbose\<close> is at least the relevance
  of the message, and changes nothing at all when \<open>verbose\<close> is below it. In both
  cases it returns normally, and the print options of numpy are what they were.
\<close>

theorem print_info_line_verbosity:
  "(verbose \<ge> relevance \<longrightarrow>
      print_info_line opts (msg, relevance) verbose print_nl io
        = (Inr PyNone, io\<lparr>stdout := stdout io @ str msg @ (if print_nl then newline else '' '')\<rparr>))
   \<and> (verbose < relevance \<longrightarrow>
      print_info_line opts (msg, relevance) verbose print_nl io = (Inr PyNone, io))"
  by (simp add: print_info_line_run)

theorem print_info_line_verbosity_witness:
  "print_info_line
      \<lparr>print_precision = PyInt 8, print_suppress = PyBool False,
       ver = PyObj ''0.001'', vea = PyObj ''1e-06'', ier = PyObj ''0.001'', iea = PyObj ''1e-09''\<rparr>
      (PyStr ''Solving...'', 3) 3 True
      \<lparr>stdout = [], stderr = [], np_options = (\<lambda>_. PyNone)\<rparr>
     = (Inr PyNone, \<lparr>stdout = ''Solving...'' @ newline, stderr = [], np_options = (\<lambda>_. PyNone)\<rparr>)
   \<and> print_info_line
      \<lparr>print_precision = PyInt 8, print_suppress = PyBool False,
       ver = PyObj ''0.001'', vea = PyObj ''1e-06'', ier = PyObj ''0.001'', iea = PyObj ''1e-09''\<rparr>
      (PyStr ''Solving...'', 3) 2 True
      \<lparr>stdout = [], stderr = [], np_options = (\<lambda>_. PyNone)\<rparr>
     = (Inr PyNone, \<lparr>stdout = [], stderr = [], np_options = (\<lambda>_. PyNone)\<rparr>)"
  using print_info_line_verbosity [of 3 3 _ "PyStr ''Solving...''" True
          "\<lparr>stdout = [], stderr = [], np_options = (\<lambda>_. PyNone)\<rparr>"]
        print_info_line_verbosity [of 3 2 _ "PyStr ''Solving...''" True
          "\<lparr>stdout = [], stderr = [], np_options = (\<lambda>_. PyNone)\<rparr>"]
  by simp

lemma import_module_run:
  "import_module getenv io =
     (Inr (),
      if getenv ''LANG'' = None \<or> getenv ''LANG'' = Some []
      then io\<lparr>stderr := stderr io @ ''W: '' @ locale_warning_1 @ newline
                                    @ ''W: '' @ locale_warning_2 @ newline\<rparr>
      else io)"
  by (cases "getenv ''LANG''")
     (simp_all add: import_module_def print_warning_run py_then_def py_bind_def py_return_def)

text \<open>
  C8. Importing the module with \<open>LANG\<close> unset appends the two lines of the locale
  warning to standard error, each written by \<open>print_warning\<close>, and leaves standard
  output alone; with \<open>LANG\<close> set to a non-empty value the import writes nothing.
\<close>

theorem locale_warning_at_import:
  "(getenv ''LANG'' = None \<longrightarrow>
      import_module getenv io
        = (Inr (), io\<lparr>stderr := stderr io @ ''W: '' @ locale_warning_1 @ newline
                                            @ ''W: '' @ locale_warning_2 @ newline\<rparr>)
      \<and> snd (import_module getenv io)
        = snd (print_warning locale_warning_2 False (snd (print_warning locale_warning_1 False io))))
   \<and> (getenv ''LANG'' = Some l \<and> l \<noteq> [] \<longrightarrow> import_module getenv io = (Inr (), io))"
  by (simp add: import_module_run print_warning_run)

theorem locale_warning_at_import_witness:
  "import_module Map.empty \<lparr>stdout = [], stderr = [], np_options = (\<lambda>_. PyNone)\<rparr>
     = (Inr (), \<lparr>stdout = [],
                 stderr = ''W: '' @ locale_warning_1 @ newline @ ''W: '' @ locale_warning_2 @ newline,
                 np_options = (\<lambda>_. PyNone)\<rparr>)
   \<and> import_module [''LANG'' \<mapsto> ''en_US.UTF-8''] \<lparr>stdout = [], stderr = [], np_options = (\<lambda>_. PyNone)\<rparr>
     = (Inr (), \<lparr>stdout = [], stderr = [], np_options = (\<lambda>_. PyNone)\<rparr>)"
  using locale_warning_at_import [of Map.empty "\<lparr>stdout = [], stderr = [], np_options = (\<lambda>_. PyNone)\<rparr>" "[]"]
        locale_warning_at_import [of "[''LANG'' \<mapsto> ''en_US.UTF-8'']"
          "\<lparr>stdout = [], stderr = [], np_options = (\<lambda>_. PyNone)\<rparr>" "''en_US.UTF-8''"]
  by simp

lemma print_result_check_run:
  "print_result_check opts badvars verbose io =
     (Inr PyNone,
      if badvars \<noteq> [] then
        io\<lparr>stdout := stdout io @ ''Warning: solution is heavvily dependent on gmin.'' @ newline
                  @ ''Affected variables:'' @ newline
                  @ concat (map (\<lambda>bv. str bv @ newline) badvars)\<rparr>
      else if verbose \<noteq> 0 then
        io\<lparr>stdout := stdout io @ ''Difference check is within margins.'' @ newline
                  @ ''(Voltage: er='' @ str (ver opts) @ '', ea='' @ str (vea opts)
                  @ '', Current: er='' @ str (ier opts) @ '', ea='' @ str (iea opts) @ '')'' @ newline\<rparr>
      else io)"
  by (simp add: print_result_check_def for_each_print py_then_def py_bind_def py_return_def
      print_run)

text \<open>
  C10. \<open>print_result_check\<close> returns \<open>None\<close>. With a non-empty \<open>badvars\<close> it
  prints the warning about gmin and then every entry of \<open>badvars\<close> on a line of its
  own, whatever \<open>verbose\<close> is; with an empty \<open>badvars\<close> and \<open>verbose\<close> zero it
  prints nothing.
\<close>

theorem print_result_check_output:
  "fst (print_result_check opts badvars verbose io) = Inr PyNone
   \<and> (badvars \<noteq> [] \<longrightarrow>
        snd (print_result_check opts badvars verbose io)
          = io\<lparr>stdout := stdout io @ ''Warning: solution is heavvily dependent on gmin.'' @ newline
                      @ ''Affected variables:'' @ newline
                      @ concat (map (\<lambda>bv. str bv @ newline) badvars)\<rparr>)
   \<and> (badvars = [] \<and> verbose = 0 \<longrightarrow>
        snd (print_result_check opts badvars verbose io) = io)"
  by (simp add: print_result_check_run)

theorem print_result_check_output_witness:
  "print_result_check
      \<lparr>print_precision = PyInt 8, print_suppress = PyBool False,
       ver = PyObj ''0.001'', vea = PyObj ''1e-06'', ier = PyObj ''0.001'', iea = PyObj ''1e-09''\<rparr>
      [PyStr ''VN1'', PyStr ''I(V1)''] 0
      \<lparr>stdout = [], stderr = [], np_options = (\<lambda>_. PyNone)\<rparr>
     = (Inr PyNone,
        \<lparr>stdout = ''Warning: solution is heavvily dependent on gmin.'' @ newline
                   @ ''Affected variables:'' @ newline @ ''VN1'' @ newline @ ''I(V1)'' @ newline,
         stderr = [], np_options = (\<lambda>_. PyNone)\<rparr>)
   \<and> print_result_check
      \<lparr>print_precision = PyInt 8, print_suppress = PyBool False,
       ver = PyObj ''0.001'', vea = PyObj ''1e-06'', ier = PyObj ''0.001'', iea = PyObj ''1e-09''\<rparr>
      [] 0
      \<lparr>stdout = [], stderr = [], np_options = (\<lambda>_. PyNone)\<rparr>
     = (Inr PyNone, \<lparr>stdout = [], stderr = [], np_options = (\<lambda>_. PyNone)\<rparr>)"
  using print_result_check_output [of _ "[PyStr ''VN1'', PyStr ''I(V1)'']" 0
          "\<lparr>stdout = [], stderr = [], np_options = (\<lambda>_. PyNone)\<rparr>"]
        print_result_check_output [of _ "[]" 0
          "\<lparr>stdout = [], stderr = [], np_options = (\<lambda>_. PyNone)\<rparr>"]
  by (simp add: prod_eq_iff)

subsection \<open>Symbolic results\<close>

lemma getitem_run:
  "getitem d k io = (case map_of d k of None \<Rightarrow> (Inl KeyError, io) | Some v \<Rightarrow> (Inr v, io))"
  by (simp add: getitem_def py_raise_def py_return_def split: option.splits)

lemma mset_insort_cmp: "mset (insort_cmp f x xs) = add_mset x (mset xs)"
  by (induction xs) auto

lemma mset_list_sort: "mset (list_sort f xs) = mset xs"
  by (induction xs) (auto simp: mset_insort_cmp)

lemma set_insort_cmp: "set (insort_cmp f x xs) = insert x (set xs)"
  by (induction xs) auto

lemma set_list_sort: "set (list_sort f xs) = set xs"
  by (induction xs) (auto simp: set_insort_cmp)

lemma cmp_le_0: "cmp a b \<le> 0 \<longleftrightarrow> a \<le> b"
  by (auto simp: cmp_def)

lemma sorted_insort_cmp_str:
  "sorted (map str xs) \<Longrightarrow> sorted (map str (insort_cmp (\<lambda>x y. cmp (str x) (str y)) a xs))"
  by (induction xs) (auto simp: cmp_le_0 set_insort_cmp)

lemma sorted_list_sort_str: "sorted (map str (list_sort (\<lambda>x y. cmp (str x) (str y)) xs))"
  by (induction xs) (auto simp: sorted_insort_cmp_str)

lemma for_each_Cons_run:
  "for_each body (k # ks) io
     = (case body k io of (Inl e, io') \<Rightarrow> (Inl e, io') | (Inr u, io') \<Rightarrow> for_each body ks io')"
  by (simp add: py_then_def py_bind_def)

lemma for_each_lookup_print:
  assumes body: "body = (\<lambda>key. py_bind (getitem x key) (\<lambda>v. print (f key v)))"
  shows "set ks \<subseteq> fst ` set x \<Longrightarrow>
   for_each body ks io
     = (Inr (), io\<lparr>stdout := stdout io
          @ concat (map (\<lambda>key. f key (the (map_of x key)) @ newline) ks)\<rparr>)"
proof (induction ks arbitrary: io)
  case Nil
  then show ?case by (simp add: py_return_def)
next
  case (Cons k ks)
  from Cons.prems obtain v where v: "map_of x k = Some v"
    by (cases "map_of x k") (auto simp: map_of_eq_None_iff)
  have step: "body k io = (Inr (), io\<lparr>stdout := stdout io @ f k v @ newline\<rparr>)"
    unfolding body by (simp add: py_bind_def getitem_run v print_run)
  from Cons.prems have "set ks \<subseteq> fst ` set x" by simp
  note IH = Cons.IH [OF this]
  show ?case
    unfolding for_each_Cons_run step by (simp add: IH v)
qed

lemma print_symbolic_results_py2:
  "print_symbolic_results True x io =
     (Inr PyNone,
      io\<lparr>stdout := stdout io
        @ concat (map (\<lambda>key. str key @ tab @ '' = '' @ str (the (map_of x key)) @ newline)
            (list_sort (\<lambda>x y. cmp (str x) (str y)) (map fst x)))\<rparr>)"
proof -
  have "set (list_sort (\<lambda>x y. cmp (str x) (str y)) (map fst x)) \<subseteq> fst ` set x"
    by (simp add: set_list_sort)
  from for_each_lookup_print [OF refl this] show ?thesis
    by (simp add: print_symbolic_results_def Let_def py_bind_def [of "py_return _"]
        py_bind_def [of "for_each _ _"] py_then_def py_return_def)
qed

lemma print_symbolic_results_py2_sorted:
  "\<exists>keys. mset keys = mset (map fst x) \<and> sorted (map str keys)
      \<and> print_symbolic_results True x io
          = (Inr PyNone,
             io\<lparr>stdout := stdout io
               @ concat (map (\<lambda>key. str key @ tab @ '' = '' @ str (the (map_of x key)) @ newline) keys)\<rparr>)"
  using mset_list_sort sorted_list_sort_str print_symbolic_results_py2 by blast

lemma print_symbolic_results_py2_example:
  "print_symbolic_results True [(PyObj ''R1'', PyObj ''V1/I1''), (PyObj ''C1'', PyInt 2)]
      \<lparr>stdout = [], stderr = [], np_options = (\<lambda>_. PyNone)\<rparr>
     = (Inr PyNone, \<lparr>stdout = ''C1'' @ tab @ '' = 2'' @ newline @ ''R1'' @ tab @ '' = V1/I1'' @ newline, stderr = [], np_options = (\<lambda>_. PyNone)\<rparr>)"
  by (simp add: print_symbolic_results_py2 cmp_def str_int_def digit_def)

text \<open>
  C2. Under Python 2 the function prints one line per key, in ascending order of
  \<open>str key\<close> (\<open>print_symbolic_results_py2_sorted\<close>). Under Python 3, which the module
  also runs on, the call \<^verbatim>\<open>keys.sort(f)\<close> raises TypeError for every mapping: nothing is
  printed and the function does not return.
\<close>

theorem print_symbolic_results_py3_raises:
  "print_symbolic_results False x io = (Inl TypeError, io)"
  by (simp add: print_symbolic_results_def Let_def py_bind_def py_raise_def)

subsection \<open>The context manager\<close>

lemma printoptions_restores_on_return:
  assumes known: "list_all (\<lambda>k. k \<in> set np_option_names) (map fst kwargs)"
    and body: "body (io\<lparr>np_options := fold (\<lambda>kv f. f(fst kv := snd kv)) kwargs (np_options io)\<rparr>)
                 = (Inr v, io')"
  shows "get_printoptions (snd (printoptions kwargs body io)) = get_printoptions io"
proof -
  have "printoptions kwargs body io
     = (Inr v, io'\<lparr>np_options :=
          (\<lambda>k. if k \<in> set np_option_names then np_options io k else np_options io' k)\<rparr>)"
    using known body by (rule printoptions_returns)
  then show ?thesis
    by (simp add: get_printoptions_def)
qed

lemma printoptions_unknown_option:
  "\<not> list_all (\<lambda>k. k \<in> set np_option_names) (map fst kwargs) \<Longrightarrow>
   printoptions kwargs body io = (Inl TypeError, io)"
  by (simp add: printoptions_def Let_def py_bind_def set_printoptions_def)

lemma printoptions_body_raises:
  assumes known: "list_all (\<lambda>k. k \<in> set np_option_names) (map fst kwargs)"
    and body: "body (io\<lparr>np_options := fold (\<lambda>kv f. f(fst kv := snd kv)) kwargs (np_options io)\<rparr>)
                 = (Inl e, io')"
  shows "printoptions kwargs body io = (Inl e, io')"
  using body
  by (simp add: printoptions_def Let_def py_bind_def set_printoptions_known [OF known])

text \<open>
  C7. When the body of the block returns, the options are restored
  (\<open>printoptions_restores_on_return\<close>). When the body raises, the block is left with the
  options the context manager has set: here \<^verbatim>\<open>precision\<close> was 8, the block
  \<^verbatim>\<open>with printoptions(precision=3): {}["k"]\<close> raises KeyError, and \<^verbatim>\<open>precision\<close>
  is 3 afterwards.
\<close>

theorem printoptions_not_restored_when_body_raises:
  "printoptions [(''precision'', PyInt 3)] (getitem [] ''k'')
      \<lparr>stdout = [], stderr = [], np_options = (\<lambda>_. PyNone)(''precision'' := PyInt 8)\<rparr>
     = (Inl KeyError,
        \<lparr>stdout = [], stderr = [], np_options = (\<lambda>_. PyNone)(''precision'' := PyInt 3)\<rparr>)
   \<and> get_printoptions (snd (printoptions [(''precision'', PyInt 3)] (getitem [] ''k'')
        \<lparr>stdout = [], stderr = [], np_options = (\<lambda>_. PyNone)(''precision'' := PyInt 8)\<rparr>))
     \<noteq> get_printoptions
        \<lparr>stdout = [], stderr = [], np_options = (\<lambda>_. PyNone)(''precision'' := PyInt 8)\<rparr>"
  by (simp add: printoptions_def Let_def py_bind_def set_printoptions_def getitem_def
      py_raise_def np_option_names_def get_printoptions_def)

subsection \<open>print_analysis\<close>

lemma py_lift_run:
  "py_lift r io = (case r of Inl e \<Rightarrow> (Inl e, io) | Inr v \<Rightarrow> (Inr v, io))"
  by (simp add: py_lift_def py_raise_def py_return_def split: sum.splits)

lemma add_str_run:
  "add_str s v io = (case v of PyStr t \<Rightarrow> (Inr (s @ t), io) | _ \<Rightarrow> (Inl TypeError, io))"
  by (simp add: add_str_def py_raise_def py_return_def split: pyval.splits)

lemma then_run: "m io = (Inr u, io') \<Longrightarrow> py_then m k io = k io'"
  by (simp add: py_then_def py_bind_def)

lemma for_each_op_items:
  assumes body: "body = (\<lambda>x. if x = ''type'' \<or> x = ''outfile'' \<or> x = ''verbose'' then py_return ()
            else py_bind (getitem an x) (\<lambda>v. print_end ('' '' @ x @ ''='' @ str v) []))"
  shows "set ks \<subseteq> fst ` set an \<Longrightarrow> \<exists>io'. for_each body ks io = (Inr (), io')"
proof (induction ks arbitrary: io)
  case Nil
  then show ?case by (simp add: py_return_def)
next
  case (Cons k ks)
  from Cons.prems obtain v where v: "map_of an k = Some v"
    by (cases "map_of an k") (auto simp: map_of_eq_None_iff)
  have "\<exists>io'. body k io = (Inr (), io')"
  proof (cases "k = ''type'' \<or> k = ''outfile'' \<or> k = ''verbose''")
    case True
    then have "body k io = (Inr (), io)"
      unfolding body by (simp add: py_return_def)
    then show ?thesis ..
  next
    case False
    then have "body k io = (Inr (), io\<lparr>stdout := stdout io @ ('' '' @ k @ ''='' @ str v) @ []\<rparr>)"
      unfolding body by (simp add: py_bind_def getitem_run v print_end_def stdout_write_def)
    then show ?thesis ..
  qed
  then obtain io' where step: "body k io = (Inr (), io')" ..
  from Cons.prems have "set ks \<subseteq> fst ` set an" by simp
  from Cons.IH [OF this] obtain io'' where "for_each body ks io' = (Inr (), io'')" by blast
  then have "for_each body (k # ks) io = (Inr (), io'')"
    unfolding for_each_Cons_run step by simp
  then show ?case ..
qed


lemma bind_getitem:
  "py_bind (getitem d k) f io = (case map_of d k of None \<Rightarrow> (Inl KeyError, io) | Some v \<Rightarrow> f v io)"
  by (simp add: py_bind_def getitem_run split: option.splits)

lemma then_print_end:
  "py_then (print_end s e) k io = k (io\<lparr>stdout := stdout io @ s @ e\<rparr>)"
  by (simp add: py_then_def py_bind_def print_end_def stdout_write_def)

lemma then_print:
  "py_then (print s) k io = k (io\<lparr>stdout := stdout io @ s @ newline\<rparr>)"
  by (simp add: py_then_def py_bind_def print_run)

lemma then_stdout_write:
  "py_then (stdout_write s) k io = k (io\<lparr>stdout := stdout io @ s\<rparr>)"
  by (simp add: py_then_def py_bind_def stdout_write_def)

lemma print_analysis_no_type:
  assumes "map_of an ''type'' = None"
  shows "print_analysis fmt_g an io = (Inl KeyError, io)"
  unfolding print_analysis_def by (simp only: bind_getitem assms option.case)

lemma print_analysis_op:
  assumes "map_of an ''type'' = Some (PyStr ''op'')"
  shows "fst (print_analysis fmt_g an io) = Inr PyNone"
proof -
  define body where "body = (\<lambda>x. if x = ''type'' \<or> x = ''outfile'' \<or> x = ''verbose'' then py_return ()
            else py_bind (getitem an x) (\<lambda>v. print_end ('' '' @ x @ ''='' @ str v) []))"
  have run: "print_analysis fmt_g an io
      = py_then (print_end ''.op'' [])
         (py_then (for_each body (map fst an)) (py_then (print []) (py_return PyNone))) io"
    unfolding print_analysis_def body_def
    by (simp only: bind_getitem assms option.case if_True refl)
  have "set (map fst an) \<subseteq> fst ` set an" by simp
  from for_each_op_items [OF body_def this]
  obtain io2 where io2: "for_each body (map fst an) (io\<lparr>stdout := stdout io @ ''.op'' @ []\<rparr>) = (Inr (), io2)"
    by blast
  have loop: "py_then (for_each body (map fst an)) k (io\<lparr>stdout := stdout io @ ''.op'' @ []\<rparr>) = k io2" for k :: "pyval py"
    using io2 by (rule then_run)
  show ?thesis
    unfolding run then_print_end loop then_print
    by (simp add: py_return_def)
qed


lemma bind_lift:
  "py_bind (py_lift r) f io = (case r of Inl e \<Rightarrow> (Inl e, io) | Inr v \<Rightarrow> f v io)"
  by (simp add: py_bind_def py_lift_run split: sum.splits)

lemma bind_add_str:
  "py_bind (add_str s v) f io = (case v of PyStr t \<Rightarrow> f (s @ t) io | _ \<Rightarrow> (Inl TypeError, io))"
  by (simp add: py_bind_def add_str_run split: pyval.splits)

lemma print_analysis_other:
  assumes "map_of an ''type'' = Some t" "t \<noteq> PyStr ''op''" "t \<noteq> PyStr ''dc''"
     "t \<noteq> PyStr ''tran''" "t \<noteq> PyStr ''shooting''"
  shows "print_analysis fmt_g an io = (Inr PyNone, io)"
  unfolding print_analysis_def
  by (simp only: bind_getitem assms option.case if_False py_return_def)

lemma print_analysis_dc_run:
  assumes "map_of an ''type'' = Some (PyStr ''dc'')"
  shows "print_analysis fmt_g an io =
    (case map_of an ''source'' of None \<Rightarrow> (Inl KeyError, io) | Some source \<Rightarrow>
     case map_of an ''start'' of None \<Rightarrow> (Inl KeyError, io) | Some start \<Rightarrow>
     case fmt_g start of Inl e \<Rightarrow> (Inl e, io) | Inr start_g \<Rightarrow>
     case map_of an ''stop'' of None \<Rightarrow> (Inl KeyError, io) | Some stop \<Rightarrow>
     case fmt_g stop of Inl e \<Rightarrow> (Inl e, io) | Inr stop_g \<Rightarrow>
     case map_of an ''step'' of None \<Rightarrow> (Inl KeyError, io) | Some step \<Rightarrow>
     case fmt_g step of Inl e \<Rightarrow> (Inl e, io) | Inr step_g \<Rightarrow>
     case map_of an ''sweep_type'' of None \<Rightarrow> (Inl KeyError, io) | Some sweep_type \<Rightarrow>
       (Inr PyNone,
        io\<lparr>stdout := stdout io @ ''.dc '' @ str source @ '' start='' @ start_g @ '' stop='' @ stop_g
                          @ '' step='' @ step_g @ '' type='' @ str sweep_type @ newline\<rparr>))"
  unfolding print_analysis_def
  by (simp add: bind_getitem bind_lift then_print py_return_def assms
      cong: option.case_cong sum.case_cong)


lemma then_return:
  "py_then (py_return u) k io = k io"
  by (simp add: py_then_def py_bind_def py_return_def)

lemma then_if:
  "py_then (if c then m else n) k io = (if c then py_then m k io else py_then n k io)"
  by simp

lemma then_bind:
  "py_then (py_bind m f) k io = py_bind m (\<lambda>v. py_then (f v) k) io"
  by (simp add: py_then_def py_bind_def split: prod.splits sum.splits)

lemma print_analysis_tran_run:
  assumes "map_of an ''type'' = Some (PyStr ''tran'')"
  shows "print_analysis fmt_g an io =
    (case map_of an ''tstep'' of None \<Rightarrow> (Inl KeyError, io) | Some tstep \<Rightarrow>
     case map_of an ''tstop'' of None \<Rightarrow> (Inl KeyError, io) | Some tstop \<Rightarrow>
     case map_of an ''tstart'' of None \<Rightarrow> (Inl KeyError, io) | Some tstart \<Rightarrow>
     let io1 = io\<lparr>stdout := stdout io @ ''.tran tstep='' @ str tstep @ '' tstop='' @ str tstop
                                 @ '' tstart='' @ str tstart\<rparr> in
     case map_of an ''method'' of None \<Rightarrow> (Inl KeyError, io1) | Some method \<Rightarrow>
     case method of
       PyNone \<Rightarrow> (Inr PyNone, io1\<lparr>stdout := stdout io1 @ newline\<rparr>)
     | PyStr m \<Rightarrow> (Inr PyNone, io1\<lparr>stdout := stdout io1 @ '' method='' @ m @ newline\<rparr>)
     | _ \<Rightarrow> (Inl TypeError, io1))"
  unfolding print_analysis_def
  by (simp add: bind_getitem bind_add_str then_print then_stdout_write then_if then_bind
      py_return_def assms Let_def
      split: option.splits pyval.splits)


lemma print_analysis_shooting_run:
  assumes "map_of an ''type'' = Some (PyStr ''shooting'')"
  shows "print_analysis fmt_g an io =
    (case map_of an ''period'' of None \<Rightarrow> (Inl KeyError, io) | Some period \<Rightarrow>
     case map_of an ''method'' of None \<Rightarrow> (Inl KeyError, io) | Some method \<Rightarrow>
     let io1 = io\<lparr>stdout := stdout io @ ''.shooting period='' @ str period
                                 @ '' method='' @ str method\<rparr> in
     case map_of an ''points'' of None \<Rightarrow> (Inl KeyError, io1) | Some points \<Rightarrow>
     let io2 = (if points \<noteq> PyNone then io1\<lparr>stdout := stdout io1 @ '' points='' @ str points\<rparr>
                else io1) in
     case map_of an ''step'' of None \<Rightarrow> (Inl KeyError, io2) | Some step \<Rightarrow>
     let io3 = (if step \<noteq> PyNone then io2\<lparr>stdout := stdout io2 @ '' step='' @ str step\<rparr>
                else io2) in
     case map_of an ''autonomous'' of None \<Rightarrow> (Inl KeyError, io3) | Some autonomous \<Rightarrow>
       (Inr PyNone, io3\<lparr>stdout := stdout io3 @ '' autonomous= '' @ str autonomous @ newline\<rparr>))"
  unfolding print_analysis_def
  by (simp add: bind_getitem then_print then_stdout_write then_if then_bind then_return
      py_return_def assms Let_def stdout_write_def
      split: option.splits)

lemma print_analysis_returns_iff:
  "fst (print_analysis fmt_g an io) = Inr PyNone \<longleftrightarrow> analysis_ok fmt_g an"
proof (cases "map_of an ''type''")
  case None
  then show ?thesis
    by (simp add: print_analysis_no_type analysis_ok_def)
next
  case (Some t)
  consider (op) "t = PyStr ''op''" | (dc) "t = PyStr ''dc''" | (tran) "t = PyStr ''tran''"
    | (shooting) "t = PyStr ''shooting''"
    | (other) "t \<noteq> PyStr ''op''" "t \<noteq> PyStr ''dc''" "t \<noteq> PyStr ''tran''" "t \<noteq> PyStr ''shooting''"
    by blast
  then show ?thesis
  proof cases
    case op
    with Some show ?thesis
      by (simp add: print_analysis_op analysis_ok_def)
  next
    case dc
    with Some have ty: "map_of an ''type'' = Some (PyStr ''dc'')" by simp
    show ?thesis
      unfolding print_analysis_dc_run [OF ty]
      by (auto simp: analysis_ok_def ty has_key_def formats_def split: option.splits sum.splits)
  next
    case tran
    with Some have ty: "map_of an ''type'' = Some (PyStr ''tran'')" by simp
    show ?thesis
      unfolding print_analysis_tran_run [OF ty]
      by (simp add: analysis_ok_def ty has_key_def none_or_str_def Let_def
          split: option.splits pyval.splits)
  next
    case shooting
    with Some have ty: "map_of an ''type'' = Some (PyStr ''shooting'')" by simp
    show ?thesis
      unfolding print_analysis_shooting_run [OF ty]
      by (simp add: analysis_ok_def ty has_key_def Let_def split: option.splits)
  next
    case other
    with Some show ?thesis
      by (simp add: print_analysis_other analysis_ok_def)
  qed
qed

text \<open>The four branches on descriptors as the netlist parser builds them, and a
  \<^verbatim>\<open>tran\<close> descriptor whose method is not a string.\<close>

lemma print_analysis_op_example:
  "print_analysis fmt_g
      [(''type'', PyStr ''op''), (''guess'', PyBool True), (''outfile'', PyStr ''out''), (''x0'', PyNone)]
      \<lparr>stdout = [], stderr = [], np_options = (\<lambda>_. PyNone)\<rparr>
     = (Inr PyNone,
        \<lparr>stdout = ''.op guess=True x0=None'' @ newline, stderr = [], np_options = (\<lambda>_. PyNone)\<rparr>)"
  by (simp add: print_analysis_def py_bind_def py_then_def getitem_def py_return_def
      print_def print_end_def stdout_write_def)

lemma print_analysis_tran_example:
  "print_analysis fmt_g
      [(''type'', PyStr ''tran''), (''tstart'', PyInt 0), (''tstop'', PyObj ''0.001''),
       (''tstep'', PyObj ''1e-06''), (''method'', PyStr ''trap'')]
      \<lparr>stdout = [], stderr = [], np_options = (\<lambda>_. PyNone)\<rparr>
     = (Inr PyNone,
        \<lparr>stdout = ''.tran tstep=1e-06 tstop=0.001 tstart=0 method=trap'' @ newline,
         stderr = [], np_options = (\<lambda>_. PyNone)\<rparr>)"
  by (simp add: print_analysis_tran_run Let_def str_int_def digit_def)

lemma print_analysis_tran_bad_method_example:
  "print_analysis fmt_g
      [(''type'', PyStr ''tran''), (''tstart'', PyInt 0), (''tstop'', PyObj ''0.001''),
       (''tstep'', PyObj ''1e-06''), (''method'', PyInt 2)]
      \<lparr>stdout = [], stderr = [], np_options = (\<lambda>_. PyNone)\<rparr>
     = (Inl TypeError,
        \<lparr>stdout = ''.tran tstep=1e-06 tstop=0.001 tstart=0'',
         stderr = [], np_options = (\<lambda>_. PyNone)\<rparr>)"
  by (simp add: print_analysis_tran_run Let_def str_int_def digit_def)

lemma print_analysis_shooting_example:
  "print_analysis fmt_g
      [(''type'', PyStr ''shooting''), (''period'', PyObj ''0.001''), (''method'', PyStr ''shooting''),
       (''points'', PyInt 100), (''step'', PyNone), (''autonomous'', PyBool False)]
      \<lparr>stdout = [], stderr = [], np_options = (\<lambda>_. PyNone)\<rparr>
     = (Inr PyNone,
        \<lparr>stdout = ''.shooting period=0.001 method=shooting points=100 autonomous= False'' @ newline,
         stderr = [], np_options = (\<lambda>_. PyNone)\<rparr>)"
  by (simp add: print_analysis_shooting_run Let_def str_int_def digit_def)

lemma print_analysis_dc_example:
  "print_analysis (\<lambda>v. case v of PyInt i \<Rightarrow> Inr (str v) | PyObj s \<Rightarrow> Inr s | _ \<Rightarrow> Inl TypeError)
      [(''type'', PyStr ''dc''), (''source'', PyStr ''V1''), (''start'', PyInt 0),
       (''stop'', PyInt 5), (''step'', PyObj ''0.1''), (''sweep_type'', PyStr ''LIN'')]
      \<lparr>stdout = [], stderr = [], np_options = (\<lambda>_. PyNone)\<rparr>
     = (Inr PyNone,
        \<lparr>stdout = ''.dc V1 start=0 stop=5 step=0.1 type=LIN'' @ newline,
         stderr = [], np_options = (\<lambda>_. PyNone)\<rparr>)"
  by (simp add: print_analysis_dc_run str_int_def digit_def)

lemma print_symbolic_equations_run:
  "print_symbolic_equations eq_list io =
     (Inr PyNone,
      io\<lparr>stdout := stdout io @ ''+--'' @ newline
                @ concat (map (\<lambda>eq. (''| '' @ str eq) @ newline) eq_list) @ ''+--'' @ newline\<rparr>)"
  by (simp add: print_symbolic_equations_def then_print for_each_print
      py_then_def [of "for_each _ _"] py_bind_def [of "for_each _ _"] py_return_def)

text \<open>
  What does return. The functions that print errors, warnings, parse errors,
  informational lines, the result check and symbolic equations return \<open>None\<close> for every
  argument of their documented types, in every state. \<open>print_analysis\<close> returns
  \<open>None\<close> exactly on the mappings that hold what its branch reads (\<open>analysis_ok\<close>),
  which the descriptors built by the netlist parser do.
\<close>

lemma printers_return_None:
  "fst (print_general_error description print_to_stdout io) = Inr PyNone
   \<and> fst (print_warning description print_to_stdout io) = Inr PyNone
   \<and> fst (print_parse_error nline line print_to_stdout io) = Inr PyNone
   \<and> fst (print_info_line opts msg_relevance_tuple verbose print_nl io) = Inr PyNone
   \<and> fst (print_result_check opts badvars verbose io) = Inr PyNone
   \<and> fst (print_symbolic_equations eq_list io) = Inr PyNone
   \<and> (fst (print_analysis fmt_g an io) = Inr PyNone \<longleftrightarrow> analysis_ok fmt_g an)"
proof -
  obtain msg relevance where "msg_relevance_tuple = (msg, relevance)"
    by (cases msg_relevance_tuple)
  then have "fst (print_info_line opts msg_relevance_tuple verbose print_nl io) = Inr PyNone"
    by (simp add: print_info_line_run)
  then show ?thesis
    by (simp add: print_general_error_run print_warning_run print_parse_error_run
        print_result_check_run print_symbolic_equations_run print_analysis_returns_iff)
qed

lemma print_analysis_missing_keys_example:
  "fst (print_analysis
        (\<lambda>v. case v of PyInt i \<Rightarrow> Inr (str v) | PyObj s \<Rightarrow> Inr s | _ \<Rightarrow> Inl TypeError)
        [(''type'', PyStr ''dc'')]
        \<lparr>stdout = [], stderr = [], np_options = (\<lambda>_. PyNone)\<rparr>) = Inl KeyError
   \<and> fst (print_analysis
        (\<lambda>v. case v of PyInt i \<Rightarrow> Inr (str v) | PyObj s \<Rightarrow> Inr s | _ \<Rightarrow> Inl TypeError)
        []
        \<lparr>stdout = [], stderr = [], np_options = (\<lambda>_. PyNone)\<rparr>) = Inl KeyError"
  by (simp add: print_analysis_no_type print_analysis_dc_run)

text \<open>
  C1. Not every function returns normally on every input: under Python 3
  \<open>print_symbolic_results\<close> raises. On the mapping of the two results \<^verbatim>\<open>R1\<close> and
  \<^verbatim>\<open>C1\<close> the call ends in TypeError with nothing printed, where the same call under
  Python 2 prints the two lines and returns \<open>None\<close>. The cause is the call
  \<^verbatim>\<open>keys.sort(f)\<close> of C2.
\<close>

theorem print_symbolic_results_does_not_return:
  "print_symbolic_results False [(PyObj ''R1'', PyObj ''V1/I1''), (PyObj ''C1'', PyInt 2)]
      \<lparr>stdout = [], stderr = [], np_options = (\<lambda>_. PyNone)\<rparr>
     = (Inl TypeError, \<lparr>stdout = [], stderr = [], np_options = (\<lambda>_. PyNone)\<rparr>)
   \<and> fst (print_symbolic_results True [(PyObj ''R1'', PyObj ''V1/I1''), (PyObj ''C1'', PyInt 2)]
      \<lparr>stdout = [], stderr = [], np_options = (\<lambda>_. PyNone)\<rparr>) = Inr PyNone"
  by (simp add: print_symbolic_results_py2)
     (simp add: print_symbolic_results_def Let_def py_bind_def py_raise_def)

end
